theory Spec2Isabelle
  imports Complex_Main "HOL-Library.Multiset" "HOL-Library.Sublist"
begin

section \<open>Values shared by the server and the filter module\<close>

text \<open>
  What \<^verbatim>\<open>json.load\<close> and \<^verbatim>\<open>json.loads\<close> return. Python has one value \<^verbatim>\<open>None\<close> for
  the JSON \<^verbatim>\<open>null\<close> and for "nothing there", so \<open>JNull\<close> stands for both. Numbers are
  only ever compared, never computed with, and are read as the reals they denote.
\<close>

datatype json =
    JNull
  | JBool bool
  | JNum real
  | JStr string
  | JArr "json list"
  | JObj "(string \<times> json) list"

text \<open>Python's truth value of a decoded JSON value, as used by \<^verbatim>\<open>x or None\<close> and \<^verbatim>\<open>if x:\<close>.\<close>

fun truthy :: "json \<Rightarrow> bool" where
  "truthy JNull = False"
| "truthy (JBool b) = b"
| "truthy (JNum n) = (n \<noteq> 0)"
| "truthy (JStr s) = (s \<noteq> [])"
| "truthy (JArr xs) = (xs \<noteq> [])"
| "truthy (JObj kvs) = (kvs \<noteq> [])"

text \<open>
  \<^verbatim>\<open>d.get(key)\<close> on a decoded JSON object: the value of the last pair with that key
  (the decoder lets a later duplicate win), \<^verbatim>\<open>None\<close> when the key is missing.
\<close>

definition py_get :: "(string \<times> json) list \<Rightarrow> string \<Rightarrow> json" where
  "py_get kvs key = (case map_of (rev kvs) key of None \<Rightarrow> JNull | Some v \<Rightarrow> v)"

text \<open>\<^verbatim>\<open>s.split(c)\<close> for a one-character separator: never the empty list.\<close>

fun split_on :: "char \<Rightarrow> string \<Rightarrow> string list" where
  "split_on c [] = [[]]"
| "split_on c (x # xs) =
     (if x = c then [] # split_on c xs
      else (case split_on c xs of
              [] \<Rightarrow> [[x]]
            | p # ps \<Rightarrow> (x # p) # ps))"

datatype error =
    NotFoundError
  | ParseError
  | ValidationError
  | FileNotFoundError
  | JSONDecodeError
  | AttributeError
  | IndexError
  | ValueError

section \<open>The filter module\<close>

text \<open>
  Modelled from the spec: the product record of \<^verbatim>\<open>filter.py\<close>, which is not among the
  sources. Spec section 3 lists the fields; the fixture of \<^verbatim>\<open>test_filter.py\<close> gives
  their keys.
\<close>

record product =
  product_id :: int
  color :: string
  designer :: string
  on_sale :: bool
  regular_price :: real
  discount_price :: real
  popularity_score :: real

text \<open>
  Modelled from the spec: \<^verbatim>\<open>filter.py\<close> is missing. Effective price is
  discount_price when on_sale is true, else regular_price (glossary; the tests compute
  it the same way).
\<close>

definition effective_price :: "product \<Rightarrow> real" where
  "effective_price p = (if on_sale p then discount_price p else regular_price p)"

text \<open>
  The catalog source \<^verbatim>\<open>data.json\<close>, seen through its parse: either every line is a
  product record, or some line is not.
\<close>

datatype catalog_file = Catalog "product list" | Malformed string

text \<open>
  Modelled from the spec: \<^verbatim>\<open>load_products\<close> of the missing \<^verbatim>\<open>filter.py\<close> (section
  4.1). One record per line, in order; NotFoundError when the source is absent,
  ParseError when a line is not valid JSON; nothing is cached.
\<close>

definition load_products :: "catalog_file option \<Rightarrow> error + product list" where
  "load_products src =
     (case src of
        None \<Rightarrow> Inl NotFoundError
      | Some (Malformed _) \<Rightarrow> Inl ParseError
      | Some (Catalog ps) \<Rightarrow> Inr ps)"

text \<open>
  Modelled from the spec: the four single filters of the missing \<^verbatim>\<open>filter.py\<close>
  (section 3: color and brand are exact string matches, on_sale an exact boolean match,
  price_range is inclusive on the effective price). The criterion is the Python value the
  caller hands over, so a value of another type matches no record. Each is a stable
  filter.
\<close>

definition filter_by_color :: "product list \<Rightarrow> json \<Rightarrow> product list" where
  "filter_by_color products c = filter (\<lambda>p. JStr (color p) = c) products"

definition filter_by_price_range :: "product list \<Rightarrow> real \<Rightarrow> real \<Rightarrow> product list" where
  "filter_by_price_range products min_price max_price =
     filter (\<lambda>p. min_price \<le> effective_price p \<and> effective_price p \<le> max_price) products"

definition filter_by_sale_status :: "product list \<Rightarrow> json \<Rightarrow> product list" where
  "filter_by_sale_status products s = filter (\<lambda>p. JBool (on_sale p) = s) products"

definition filter_by_brand :: "product list \<Rightarrow> json \<Rightarrow> product list" where
  "filter_by_brand products b = filter (\<lambda>p. JStr (designer p) = b) products"

text \<open>
  Modelled from the spec: \<^verbatim>\<open>apply_filters\<close> of the missing \<^verbatim>\<open>filter.py\<close> (section
  4.2). A criterion that is \<^verbatim>\<open>None\<close> or the empty string is not provided and puts no
  constraint; a record survives iff it passes every criterion that is provided. The
  arguments are in the order of the keyword arguments in \<^verbatim>\<open>server.py\<close>.
\<close>

definition apply_filters ::
  "product list \<Rightarrow> json \<Rightarrow> (real \<times> real) option \<Rightarrow> json \<Rightarrow> json \<Rightarrow> product list" where
  "apply_filters products c price_range s b =
     (let f1 = (if c = JNull \<or> c = JStr '''' then products else filter_by_color products c);
          f2 = (case price_range of
                  None \<Rightarrow> f1
                | Some (lo, hi) \<Rightarrow> filter_by_price_range f1 lo hi);
          f3 = (if s = JNull \<or> s = JStr '''' then f2 else filter_by_sale_status f2 s);
          f4 = (if b = JNull \<or> b = JStr '''' then f3 else filter_by_brand f3 b)
      in f4)"

text \<open>
  Modelled from the spec: the three sorts of the missing \<^verbatim>\<open>filter.py\<close> (section 4.3).
  Each returns a new list, compares by effective price or by popularity_score, and is
  stable; the two descending sorts keep the input order among equal keys as well.
\<close>

definition sort_by_price_low_to_high :: "product list \<Rightarrow> product list" where
  "sort_by_price_low_to_high products = sort_key effective_price products"

definition sort_by_price_high_to_low :: "product list \<Rightarrow> product list" where
  "sort_by_price_high_to_low products = rev (sort_key effective_price (rev products))"

definition sort_by_popularity :: "product list \<Rightarrow> product list" where
  "sort_by_popularity products = rev (sort_key popularity_score (rev products))"

text \<open>A list of numbers that never goes up from one element to the next.\<close>

definition non_increasing :: "real list \<Rightarrow> bool" where
  "non_increasing xs = sorted_wrt (\<lambda>a b. b \<le> a) xs"

section \<open>The pagination module\<close>

text \<open>
  Modelled from the spec: the page metadata of the missing \<^verbatim>\<open>pagination.py\<close>
  (section 3, pagination result).
\<close>

record pagination_info =
  total_items :: int
  total_pages :: int
  current_page :: int
  has_next :: bool
  has_previous :: bool

text \<open>
  Modelled from the spec: \<^verbatim>\<open>pagination.py\<close> is missing. total_pages is
  ceil(total_items / page_size), and at least 1 (section 4.4).
\<close>

definition page_count :: "int \<Rightarrow> int \<Rightarrow> int" where
  "page_count n page_size = max 1 \<lceil>real_of_int n / real_of_int page_size\<rceil>"

text \<open>
  Modelled from the spec: \<^verbatim>\<open>get_page_data\<close> of the missing \<^verbatim>\<open>pagination.py\<close>. A
  page is a bounded contiguous slice, 1-indexed (glossary); a page or a page size below 1
  fails with ValidationError (section 4.4).
\<close>

definition get_page_data :: "'a list \<Rightarrow> int \<Rightarrow> int \<Rightarrow> error + 'a list" where
  "get_page_data items page_number items_per_page =
     (if page_number < 1 \<or> items_per_page < 1 then Inl ValidationError
      else Inr (take (nat items_per_page)
                  (drop (nat ((page_number - 1) * items_per_page)) items)))"

text \<open>
  Modelled from the spec: \<^verbatim>\<open>create_pagination_info\<close> of the missing
  \<^verbatim>\<open>pagination.py\<close>. The spec names has_next and has_previous without a formula; they
  are read as "a later page exists" and "an earlier page exists".
\<close>

definition create_pagination_info :: "'a list \<Rightarrow> int \<Rightarrow> int \<Rightarrow> error + pagination_info" where
  "create_pagination_info items page_number items_per_page =
     (if page_number < 1 \<or> items_per_page < 1 then Inl ValidationError
      else Inr \<lparr> total_items = int (length items),
                 total_pages = page_count (int (length items)) items_per_page,
                 current_page = page_number,
                 has_next = (page_number < page_count (int (length items)) items_per_page),
                 has_previous = (1 < page_number) \<rparr>)"

text \<open>
  Modelled from the spec: the contract \<^verbatim>\<open>paginate(records, page, page_size) ->
  (page_items, metadata)\<close> of section 4.4, which the server gets by calling the two
  functions above one after the other.
\<close>

definition paginate :: "'a list \<Rightarrow> int \<Rightarrow> int \<Rightarrow> error + ('a list \<times> pagination_info)" where
  "paginate records page page_size =
     (case get_page_data records page page_size of
        Inl e \<Rightarrow> Inl e
      | Inr page_items \<Rightarrow>
          (case create_pagination_info records page page_size of
             Inl e \<Rightarrow> Inl e
           | Inr metadata \<Rightarrow> Inr (page_items, metadata)))"

section \<open>The server\<close>

text \<open>
  The two files the handler touches, each seen through its parse. \<open>None\<close> is "the file
  does not exist". \<^verbatim>\<open>current_filters.json\<close> holds one JSON document when it was
  written by the handler.
\<close>

datatype filters_file = Stored json | Unreadable string

record world =
  data_json :: "catalog_file option"
  current_filters_json :: "filters_file option"

text \<open>What is written to \<^verbatim>\<open>wfile\<close>, before encoding.\<close>

datatype body =
    RawText catalog_file
  | Lines "product list"
  | ProductsPage "product list" pagination_info
  | Json json
  | NoBody

text \<open>
  A response is the status, the Content-type header and the body; \<open>StaticFile\<close> is
  whatever the inherited static file handler answers for a path.
\<close>

datatype response =
    Response nat "string option" body
  | StaticFile string

text \<open>
  One query parameter as \<^verbatim>\<open>parse_qs\<close> and \<^verbatim>\<open>int\<close> see it: missing, present but
  not an integer literal, or an integer.
\<close>

datatype qparam = NotGiven | NotInt | Given int

definition int_param :: "qparam \<Rightarrow> int \<Rightarrow> error + int" where
  "int_param q dflt =
     (case q of NotGiven \<Rightarrow> Inr dflt | NotInt \<Rightarrow> Inl ValueError | Given n \<Rightarrow> Inr n)"

text \<open>
  A request: the path, and for GET the two query parameters of the paginated endpoint,
  for POST the body as \<^verbatim>\<open>json.loads\<close> decodes it (\<open>None\<close> when reading or decoding
  it raises).
\<close>

datatype request =
    GET string qparam qparam
  | POST string "json option"

subsection \<open>The unpaginated query, \<^verbatim>\<open>/data.json\<close>\<close>

text \<open>
  Lines 20 to 32 of \<^verbatim>\<open>server.py\<close>: the criteria handed to \<^verbatim>\<open>apply_filters\<close>, in
  the order color, price_range, on_sale, brand. \<open>pyfloat\<close> is Python's \<^verbatim>\<open>float\<close> on a
  string, \<open>None\<close> where it raises ValueError; it is a parameter, and the bounds it
  gives are read as reals (no infinity, no NaN).
\<close>

definition criteria_data_json ::
  "(string \<Rightarrow> real option) \<Rightarrow> (string \<times> json) list
     \<Rightarrow> error + (json \<times> (real \<times> real) option \<times> json \<times> json)" where
  "criteria_data_json pyfloat filters =
     (let c = (if truthy (py_get filters ''color'') then py_get filters ''color'' else JNull);
          b = (if truthy (py_get filters ''brand'') then py_get filters ''brand'' else JNull);
          s = (if py_get filters ''on_sale'' \<noteq> JNull then py_get filters ''on_sale'' else JNull)
      in if truthy (py_get filters ''price_range'') then
           (case py_get filters ''price_range'' of
              JStr r \<Rightarrow>
                (case split_on CHR ''-'' r of
                   [] \<Rightarrow> Inl IndexError
                 | p0 # rest \<Rightarrow>
                     (case pyfloat p0 of
                        None \<Rightarrow> Inl ValueError
                      | Some lo \<Rightarrow>
                          (case rest of
                             [] \<Rightarrow> Inl IndexError
                           | p1 # _ \<Rightarrow>
                               (case pyfloat p1 of
                                  None \<Rightarrow> Inl ValueError
                                | Some hi \<Rightarrow> Inr (c, Some (lo, hi), s, b)))))
            | _ \<Rightarrow> Inl AttributeError)
         else Inr (c, None, s, b))"

text \<open>Lines 44 to 56: the sort chosen by the stored \<^verbatim>\<open>sort_by\<close>.\<close>

definition sorting_data_json :: "json \<Rightarrow> product list \<Rightarrow> product list" where
  "sorting_data_json sort_by filtered_products =
     (if sort_by = JStr ''price_high_to_low'' then sort_by_price_high_to_low filtered_products
      else if sort_by = JStr ''price_low_to_high'' then sort_by_price_low_to_high filtered_products
      else if sort_by = JStr ''popularity'' then sort_by_popularity filtered_products
      else filtered_products)"

text \<open>
  Lines 13 to 56: the branch taken when \<^verbatim>\<open>current_filters.json\<close> exists. The catalog
  is loaded before the first \<^verbatim>\<open>filters.get\<close>, which raises AttributeError when the
  stored document is not an object.
\<close>

definition filtered_data_json ::
  "(string \<Rightarrow> real option) \<Rightarrow> filters_file \<Rightarrow> world \<Rightarrow> error + product list" where
  "filtered_data_json pyfloat f w =
     (case f of
        Unreadable _ \<Rightarrow> Inl JSONDecodeError
      | Stored doc \<Rightarrow>
          (case load_products (data_json w) of
             Inl e \<Rightarrow> Inl e
           | Inr all_products \<Rightarrow>
               (case doc of
                  JObj filters \<Rightarrow>
                    (case criteria_data_json pyfloat filters of
                       Inl e \<Rightarrow> Inl e
                     | Inr (c, price_range, s, b) \<Rightarrow>
                         Inr (sorting_data_json (py_get filters ''sort_by'')
                                (apply_filters all_products c price_range s b)))
                | _ \<Rightarrow> Inl AttributeError)))"

subsection \<open>The paginated query, \<^verbatim>\<open>/api/products\<close>\<close>

text \<open>Lines 90 to 102.\<close>

definition criteria_api_products ::
  "(string \<Rightarrow> real option) \<Rightarrow> (string \<times> json) list
     \<Rightarrow> error + (json \<times> (real \<times> real) option \<times> json \<times> json)" where
  "criteria_api_products pyfloat filters =
     (let c = (if truthy (py_get filters ''color'') then py_get filters ''color'' else JNull);
          b = (if truthy (py_get filters ''brand'') then py_get filters ''brand'' else JNull);
          s = (if py_get filters ''on_sale'' \<noteq> JNull then py_get filters ''on_sale'' else JNull)
      in if truthy (py_get filters ''price_range'') then
           (case py_get filters ''price_range'' of
              JStr r \<Rightarrow>
                (case split_on CHR ''-'' r of
                   [] \<Rightarrow> Inl IndexError
                 | p0 # rest \<Rightarrow>
                     (case pyfloat p0 of
                        None \<Rightarrow> Inl ValueError
                      | Some lo \<Rightarrow>
                          (case rest of
                             [] \<Rightarrow> Inl IndexError
                           | p1 # _ \<Rightarrow>
                               (case pyfloat p1 of
                                  None \<Rightarrow> Inl ValueError
                                | Some hi \<Rightarrow> Inr (c, Some (lo, hi), s, b)))))
            | _ \<Rightarrow> Inl AttributeError)
         else Inr (c, None, s, b))"

text \<open>Lines 114 to 126.\<close>

definition sorting_api_products :: "json \<Rightarrow> product list \<Rightarrow> product list" where
  "sorting_api_products sort_by filtered_products =
     (if sort_by = JStr ''price_high_to_low'' then sort_by_price_high_to_low filtered_products
      else if sort_by = JStr ''price_low_to_high'' then sort_by_price_low_to_high filtered_products
      else if sort_by = JStr ''popularity'' then sort_by_popularity filtered_products
      else filtered_products)"

text \<open>Lines 82 to 129: the records before pagination.\<close>

definition filtered_api_products ::
  "(string \<Rightarrow> real option) \<Rightarrow> world \<Rightarrow> error + product list" where
  "filtered_api_products pyfloat w =
     (case current_filters_json w of
        Some f \<Rightarrow>
          (case f of
             Unreadable _ \<Rightarrow> Inl JSONDecodeError
           | Stored doc \<Rightarrow>
               (case load_products (data_json w) of
                  Inl e \<Rightarrow> Inl e
                | Inr all_products \<Rightarrow>
                    (case doc of
                       JObj filters \<Rightarrow>
                         (case criteria_api_products pyfloat filters of
                            Inl e \<Rightarrow> Inl e
                          | Inr (c, price_range, s, b) \<Rightarrow>
                              Inr (sorting_api_products (py_get filters ''sort_by'')
                                     (apply_filters all_products c price_range s b)))
                     | _ \<Rightarrow> Inl AttributeError)))
      | None \<Rightarrow> load_products (data_json w))"

subsection \<open>The handler\<close>

text \<open>
  \<^verbatim>\<open>Handler.do_GET\<close>. A raise ends the request without a response; the files are as
  they were.
\<close>

definition do_GET ::
  "(string \<Rightarrow> real option) \<Rightarrow> string \<Rightarrow> qparam \<Rightarrow> qparam \<Rightarrow> world
     \<Rightarrow> (error + response) \<times> world" where
  "do_GET pyfloat path page items w =
     (if path = ''/data.json'' then
        (case (case current_filters_json w of
                 Some f \<Rightarrow>
                   (case filtered_data_json pyfloat f w of
                      Inl e \<Rightarrow> Inl e
                    | Inr filtered_products \<Rightarrow> Inr (Lines filtered_products))
               | None \<Rightarrow>
                   (case data_json w of
                      None \<Rightarrow> Inl FileNotFoundError
                    | Some raw \<Rightarrow> Inr (RawText raw))) of
           Inl e \<Rightarrow> (Inl e, w)
         | Inr data \<Rightarrow> (Inr (Response 200 (Some ''application/json'') data), w))
      else if prefix ''/api/products'' path then
        (case int_param page 1 of
           Inl e \<Rightarrow> (Inl e, w)
         | Inr page_number \<Rightarrow>
             (case int_param items 50 of
                Inl e \<Rightarrow> (Inl e, w)
              | Inr items_per_page \<Rightarrow>
                  (case filtered_api_products pyfloat w of
                     Inl e \<Rightarrow> (Inl e, w)
                   | Inr filtered_products \<Rightarrow>
                       (case get_page_data filtered_products page_number items_per_page of
                          Inl e \<Rightarrow> (Inl e, w)
                        | Inr page_data \<Rightarrow>
                            (case create_pagination_info filtered_products page_number
                                    items_per_page of
                               Inl e \<Rightarrow> (Inl e, w)
                             | Inr info \<Rightarrow>
                                 (Inr (Response 200 (Some ''application/json'')
                                         (ProductsPage page_data info)), w))))))
      else (Inr (StaticFile path), w))"

text \<open>\<^verbatim>\<open>Handler.do_POST\<close>. The body is decoded before the file is opened for writing.\<close>

definition do_POST :: "string \<Rightarrow> json option \<Rightarrow> world \<Rightarrow> (error + response) \<times> world" where
  "do_POST path posted w =
     (if path = ''/api/set-filters'' then
        (case posted of
           None \<Rightarrow> (Inl JSONDecodeError, w)
         | Some filters \<Rightarrow>
             (Inr (Response 200 (Some ''application/json'')
                     (Json (JObj [(''status'', JStr ''success'')]))),
              w\<lparr>current_filters_json := Some (Stored filters)\<rparr>))
      else if path = ''/api/clear-filters'' then
        (Inr (Response 200 (Some ''application/json'')
                (Json (JObj [(''status'', JStr ''success'')]))),
         (if current_filters_json w \<noteq> None then w\<lparr>current_filters_json := None\<rparr> else w))
      else (Inr (Response 404 None NoBody), w))"

definition handle ::
  "(string \<Rightarrow> real option) \<Rightarrow> request \<Rightarrow> world \<Rightarrow> (error + response) \<times> world" where
  "handle pyfloat req w =
     (case req of
        GET path page items \<Rightarrow> do_GET pyfloat path page items w
      | POST path posted \<Rightarrow> do_POST path posted w)"

section \<open>Reading a response\<close>


section \<open>Data for the examples\<close>

text \<open>
  The same stored mapping with one key taken out: what the store holds when that
  criterion was never sent.
\<close>

definition without_key :: "string \<Rightarrow> (string \<times> json) list \<Rightarrow> (string \<times> json) list" where
  "without_key key kvs = filter (\<lambda>kv. fst kv \<noteq> key) kvs"

text \<open>
  An instance of \<open>pyfloat\<close> for the examples below. It agrees with Python's
  \<^verbatim>\<open>float\<close> on non-empty strings of decimal digits and refuses every other string,
  though Python accepts more; the theorems hold for every \<open>pyfloat\<close>.
\<close>

definition digits_float :: "string \<Rightarrow> real option" where
  "digits_float s =
     (if s \<noteq> [] \<and> list_all (\<lambda>c. c \<in> set ''0123456789'') s
      then Some (real (foldl (\<lambda>n c. 10 * n + (of_char c - 48)) 0 s))
      else None)"

text \<open>
  The four products of the fixture \<^verbatim>\<open>sample_products\<close> in \<^verbatim>\<open>test_filter.py\<close>.
\<close>

definition sample_products :: "product list" where
  "sample_products =
     [\<lparr> product_id = 1, color = ''red'', designer = ''gucci'', on_sale = True,
        regular_price = 500, discount_price = 250, popularity_score = 2.5 \<rparr>,
      \<lparr> product_id = 2, color = ''black'', designer = ''gucci'', on_sale = True,
        regular_price = 800, discount_price = 400, popularity_score = 3.8 \<rparr>,
      \<lparr> product_id = 3, color = ''black'', designer = ''dolce-gabbana'', on_sale = False,
        regular_price = 150, discount_price = 150, popularity_score = 1.2 \<rparr>,
      \<lparr> product_id = 4, color = ''blue'', designer = ''gucci'', on_sale = False,
        regular_price = 50, discount_price = 50, popularity_score = 4.5 \<rparr>]"

text \<open>
  A state whose catalog is the fixture and whose store holds the given mapping.
\<close>

definition sample_world :: "(string \<times> json) list \<Rightarrow> world" where
  "sample_world filters =
     \<lparr> data_json = Some (Catalog sample_products),
       current_filters_json = Some (Stored (JObj filters)) \<rparr>"

section \<open>The filter module: filters and sorts\<close>

text \<open>
  C6. With no criterion supplied, \<open>apply_filters\<close> gives back the list it was given.
\<close>

theorem apply_filters_no_criteria:
  "apply_filters products JNull None JNull JNull = products"
  by (simp add: apply_filters_def)

lemma non_increasing_rev_sort_key:
  "non_increasing (map f (rev (sort_key f xs)))"
proof -
  have "sorted_wrt (\<lambda>a b. b \<le> a) (rev (map f (sort_key f xs)))"
    unfolding sorted_wrt_rev using sorted_sort_key [of f xs] by simp
  then show ?thesis
    by (simp add: non_increasing_def rev_map)
qed

text \<open>
  C3. The output of \<open>sort_by_price_high_to_low\<close>, mapped to the effective price, never
  goes up; that of \<open>sort_by_price_low_to_high\<close> never goes down; that of
  \<open>sort_by_popularity\<close> never goes up in popularity_score.
\<close>

theorem sorts_ordered:
  "non_increasing (map effective_price (sort_by_price_high_to_low products))
   \<and> sorted (map effective_price (sort_by_price_low_to_high products))
   \<and> non_increasing (map popularity_score (sort_by_popularity products))"
  by (simp add: sort_by_price_high_to_low_def sort_by_price_low_to_high_def
        sort_by_popularity_def non_increasing_rev_sort_key)

text \<open>
  Each sort only reorders: the output has the records of the input, each as often.
\<close>

lemma sorts_permute:
  "mset (sort_by_price_high_to_low products) = mset products"
  "mset (sort_by_price_low_to_high products) = mset products"
  "mset (sort_by_popularity products) = mset products"
  by (simp_all add: sort_by_price_high_to_low_def sort_by_price_low_to_high_def
        sort_by_popularity_def)

text \<open>
  The scenarios of the tests on the fixture: ids in the order each sort gives.
\<close>

lemma scenario_sort_by_popularity: "map product_id (sort_by_popularity sample_products) = [4, 2, 1, 3]"
  by (simp add: sort_by_popularity_def sample_products_def)

lemma scenario_sort_high_to_low: "map product_id (sort_by_price_high_to_low sample_products) = [2, 1, 3, 4]"
  by (simp add: sort_by_price_high_to_low_def sample_products_def effective_price_def)

lemma scenario_sort_low_to_high: "map product_id (sort_by_price_low_to_high sample_products) = [4, 3, 1, 2]"
  by (simp add: sort_by_price_low_to_high_def sample_products_def effective_price_def)

section \<open>Pagination: totals and pages\<close>

lemma page_count_ge: "1 \<le> page_count n s"
  by (simp add: page_count_def)

lemma page_count_covers:
  assumes "1 \<le> s"
  shows "n \<le> page_count n s * s"
proof -
  have "real_of_int n / real_of_int s \<le> real_of_int \<lceil>real_of_int n / real_of_int s\<rceil>"
    by (rule le_of_int_ceiling)
  also have "\<dots> \<le> real_of_int (page_count n s)"
    by (simp add: page_count_def)
  finally have "real_of_int n \<le> real_of_int (page_count n s) * real_of_int s"
    using assms by (simp add: pos_divide_le_eq)
  then have "real_of_int n \<le> real_of_int (page_count n s * s)"
    by simp
  then show ?thesis
    by (simp only: of_int_le_iff)
qed





lemma scenario_first_page:
  "paginate sample_products 1 2
     = Inr (take 2 sample_products,
            \<lparr> total_items = 4, total_pages = 2, current_page = 1,
              has_next = True, has_previous = False \<rparr>)"
  by (simp add: paginate_def get_page_data_def create_pagination_info_def page_count_def
        sample_products_def)

lemma scenario_page_beyond_last:
  "paginate sample_products 3 2
     = Inr ([], \<lparr> total_items = 4, total_pages = 2, current_page = 3,
                  has_next = False, has_previous = True \<rparr>)"
  by (simp add: paginate_def get_page_data_def create_pagination_info_def page_count_def
        sample_products_def)

lemma scenario_no_records:
  "paginate ([] :: product list) 1 50
     = Inr ([], \<lparr> total_items = 0, total_pages = 1, current_page = 1,
                  has_next = False, has_previous = False \<rparr>)"
  by (simp add: paginate_def get_page_data_def create_pagination_info_def page_count_def)

lemma concat_slices:
  "concat (map (\<lambda>k. take n (drop (k * n) xs)) [0..<m]) = take (m * n) xs"
proof (induction m)
  case 0
  show ?case by simp
next
  case (Suc m)
  have "take (m * n + n) xs = take (m * n) xs @ take n (drop (m * n) xs)"
    by (rule take_add)
  with Suc show ?case by (simp add: add.commute)
qed

lemma upto_as_nat_range: "[1..int m] = map (\<lambda>k. int k + 1) [0..<m]"
proof (induction m)
  case 0
  show ?case by simp
next
  case (Suc m)
  have "[1..int (Suc m)] = [1..int m] @ [int m + 1]"
    using upto_rec2 [of 1 "int (Suc m)"] by (simp add: add.commute)
  with Suc show ?case by simp
qed

text \<open>
  C5. For a page size of at least 1, every page from 1 to total_pages is returned, and
  their items one after the other are the records, each once and in order.
\<close>

theorem pages_rebuild_sequence:
  assumes "1 \<le> page_size"
  shows "\<exists>pages.
           map (\<lambda>page. paginate records page page_size)
               [1..page_count (int (length records)) page_size] = map Inr pages
           \<and> concat (map fst pages) = records"
proof -
  define n where "n = nat page_size"
  define m where "m = nat (page_count (int (length records)) page_size)"
  define info where "info = (\<lambda>page. \<lparr> total_items = int (length records),
      total_pages = page_count (int (length records)) page_size,
      current_page = page,
      has_next = (page < page_count (int (length records)) page_size),
      has_previous = (1 < page) \<rparr>)"
  define pages where
    "pages = map (\<lambda>k. (take n (drop (k * n) records), info (int k + 1))) [0..<m]"
  have m: "page_count (int (length records)) page_size = int m"
    using page_count_ge [of "int (length records)" page_size] by (simp add: m_def)
  have slice: "nat (int k * page_size) = k * n" for k
    using assms by (simp add: n_def nat_mult_distrib)
  have each: "paginate records (int k + 1) page_size
                = Inr (take n (drop (k * n) records), info (int k + 1))" for k
    using assms
    by (simp add: paginate_def get_page_data_def create_pagination_info_def info_def slice
          n_def [symmetric])
  have "map (\<lambda>page. paginate records page page_size) [1..int m] = map Inr pages"
    by (simp add: upto_as_nat_range pages_def each o_def)
  moreover have "concat (map fst pages) = records"
  proof -
    have "int (length records) \<le> int m * page_size"
      using page_count_covers [OF assms, of "int (length records)"] by (simp add: m)
    also have "\<dots> = int (m * n)" using assms by (simp add: n_def)
    finally have "length records \<le> m * n" by (simp only: of_nat_le_iff)
    then show ?thesis
      by (simp add: pages_def o_def concat_slices)
  qed
  ultimately show ?thesis
    unfolding m by blast
qed

text \<open>
  C5 at the four records of the fixture in pages of 3.
\<close>

theorem pages_rebuild_sequence_witness:
  "(1::int) \<le> 3
   \<and> (\<exists>pages.
        map (\<lambda>page. paginate sample_products page 3)
            [1..page_count (int (length sample_products)) 3] = map Inr pages
        \<and> concat (map fst pages) = sample_products)"
proof -
  have h: "(1::int) \<le> 3" by simp
  from pages_rebuild_sequence [OF h, of sample_products] h show ?thesis
    by blast
qed

section \<open>The two query endpoints\<close>

text \<open>
  The code of \<^verbatim>\<open>/api/products\<close> repeats that of \<^verbatim>\<open>/data.json\<close> line for line.
\<close>

lemma criteria_same:
  "criteria_api_products pyfloat filters = criteria_data_json pyfloat filters"
  by (simp add: criteria_api_products_def criteria_data_json_def)

lemma sorting_same:
  "sorting_api_products sort_by ps = sorting_data_json sort_by ps"
  by (simp add: sorting_api_products_def sorting_data_json_def)

lemma filtered_same:
  "current_filters_json w = Some f \<Longrightarrow>
     filtered_api_products pyfloat w = filtered_data_json pyfloat f w"
  by (simp add: filtered_api_products_def filtered_data_json_def criteria_same sorting_same
        split: filters_file.splits sum.splits json.splits prod.splits)








lemma scenario_second_page_unfiltered:
  "fst (do_GET digits_float ''/api/products?page=2&items_per_page=3'' (Given 2) (Given 3)
          \<lparr> data_json = Some (Catalog sample_products), current_filters_json = None \<rparr>)
     = Inr (Response 200 (Some ''application/json'')
              (ProductsPage (drop 3 sample_products)
                 \<lparr> total_items = 4, total_pages = 2, current_page = 2,
                   has_next = False, has_previous = True \<rparr>))"
  by (simp add: do_GET_def int_param_def filtered_api_products_def load_products_def
        get_page_data_def create_pagination_info_def page_count_def sample_products_def)

lemma scenario_brand:
  "map_sum id (map product_id)
     (filtered_api_products digits_float (sample_world [(''brand'', JStr ''gucci'')]))
     = Inr [1, 2, 4]"
  by (simp add: filtered_api_products_def sample_world_def load_products_def
        criteria_api_products_def py_get_def sorting_api_products_def
        apply_filters_def filter_by_brand_def sample_products_def)

lemma digits_float_240: "digits_float ''240'' = Some 240"
  by (simp add: digits_float_def)

lemma split_on_range: "split_on CHR ''-'' ''240-260'' = [''240'', ''260'']"
  by simp

lemma scenario_price_range:
  "map_sum id (map product_id)
     (filtered_api_products digits_float (sample_world [(''price_range'', JStr ''240-260'')]))
   = Inr [1]"
  by (simp add: filtered_api_products_def sample_world_def load_products_def
        criteria_api_products_def py_get_def digits_float_def sorting_api_products_def
        apply_filters_def filter_by_price_range_def effective_price_def sample_products_def)

section \<open>Sorting by the stored sort mode\<close>

text \<open>
  C7. When the stored \<^verbatim>\<open>sort_by\<close> is missing, or is none of the three names the
  handler compares it with (price_high_to_low, price_low_to_high, popularity), the sort
  stage of either endpoint gives back the records in the order it got them.
\<close>

theorem unknown_sort_keeps_order:
  "''sort_by'' \<notin> fst ` set filters
     \<or> py_get filters ''sort_by''
          \<notin> {JStr ''price_high_to_low'', JStr ''price_low_to_high'', JStr ''popularity''} \<Longrightarrow>
   sorting_data_json (py_get filters ''sort_by'') records = records
   \<and> sorting_api_products (py_get filters ''sort_by'') records = records"
proof -
  assume a: "''sort_by'' \<notin> fst ` set filters
     \<or> py_get filters ''sort_by''
          \<notin> {JStr ''price_high_to_low'', JStr ''price_low_to_high'', JStr ''popularity''}"
  have "''sort_by'' \<notin> fst ` set filters \<Longrightarrow> py_get filters ''sort_by'' = JNull"
    by (simp add: py_get_def map_of_eq_None_iff [THEN iffD2])
  with a have "py_get filters ''sort_by''
          \<notin> {JStr ''price_high_to_low'', JStr ''price_low_to_high'', JStr ''popularity''}"
    by auto
  then show ?thesis
    by (simp add: sorting_data_json_def sorting_api_products_def)
qed

text \<open>
  C7 at the stored name popularity_descending, which the handler does not know.
\<close>

theorem unknown_sort_keeps_order_witness:
  "py_get [(''sort_by'', JStr ''popularity_descending'')] ''sort_by''
     = JStr ''popularity_descending''
   \<and> sorting_data_json (py_get [(''sort_by'', JStr ''popularity_descending'')] ''sort_by'')
        sample_products = sample_products
   \<and> sorting_api_products (py_get [(''sort_by'', JStr ''popularity_descending'')] ''sort_by'')
        sample_products = sample_products"
proof -
  let ?f = "[(''sort_by'', JStr ''popularity_descending'')]"
  have v: "py_get ?f ''sort_by'' = JStr ''popularity_descending''"
    by (simp add: py_get_def)
  have h: "''sort_by'' \<notin> fst ` set ?f
     \<or> py_get ?f ''sort_by''
          \<notin> {JStr ''price_high_to_low'', JStr ''price_low_to_high'', JStr ''popularity''}"
    by (simp add: v)
  from unknown_sort_keeps_order [OF h, of sample_products] v show ?thesis
    by blast
qed

text \<open>
  C1, as stated, fails: with \<^verbatim>\<open>sort_by\<close> stored as popularity_descending both
  endpoints return the fixture in catalog order, popularity 2.5, 3.8, 1.2, 4.5.
\<close>

theorem popularity_descending_counterexample:
  "filtered_api_products digits_float
       (sample_world [(''sort_by'', JStr ''popularity_descending'')]) = Inr sample_products
   \<and> fst (do_GET digits_float ''/data.json'' NotGiven NotGiven
            (sample_world [(''sort_by'', JStr ''popularity_descending'')]))
       = Inr (Response 200 (Some ''application/json'') (Lines sample_products))
   \<and> \<not> non_increasing (map popularity_score sample_products)"
proof -
  have a: "filtered_api_products digits_float
       (sample_world [(''sort_by'', JStr ''popularity_descending'')]) = Inr sample_products"
    by (simp add: filtered_api_products_def sample_world_def load_products_def
        criteria_api_products_def py_get_def sorting_api_products_def apply_filters_def)
  have b: "fst (do_GET digits_float ''/data.json'' NotGiven NotGiven
            (sample_world [(''sort_by'', JStr ''popularity_descending'')]))
       = Inr (Response 200 (Some ''application/json'') (Lines sample_products))"
    by (simp add: do_GET_def filtered_data_json_def sample_world_def load_products_def
        criteria_data_json_def py_get_def sorting_data_json_def apply_filters_def)
  have c: "\<not> non_increasing (map popularity_score sample_products)"
    by (simp add: non_increasing_def sample_products_def)
  from a b c show ?thesis by blast
qed

text \<open>
  C1, amended: the name the handler dispatches on is popularity. When the store holds
  \<^verbatim>\<open>sort_by\<close> = popularity, the catalog loads and the criteria parse, both endpoints
  return the filtered records reordered by \<open>sort_by_popularity\<close>: the same records,
  popularity_score never going up.
\<close>

theorem popularity_sort_dispatch:
  assumes "current_filters_json w = Some (Stored (JObj filters))"
    and "py_get filters ''sort_by'' = JStr ''popularity''"
    and "load_products (data_json w) = Inr all_products"
    and "criteria_data_json pyfloat filters = Inr (c, price_range, s, b)"
  shows "filtered_api_products pyfloat w
           = Inr (sort_by_popularity (apply_filters all_products c price_range s b))
         \<and> fst (do_GET pyfloat ''/data.json'' page items w)
             = Inr (Response 200 (Some ''application/json'')
                     (Lines (sort_by_popularity (apply_filters all_products c price_range s b))))
         \<and> non_increasing (map popularity_score
               (sort_by_popularity (apply_filters all_products c price_range s b)))
         \<and> mset (sort_by_popularity (apply_filters all_products c price_range s b))
             = mset (apply_filters all_products c price_range s b)"
proof -
  have a: "filtered_data_json pyfloat (Stored (JObj filters)) w
           = Inr (sort_by_popularity (apply_filters all_products c price_range s b))"
    using assms by (simp add: filtered_data_json_def sorting_data_json_def)
  have b: "filtered_api_products pyfloat w = filtered_data_json pyfloat (Stored (JObj filters)) w"
    using assms(1) by (rule filtered_same)
  have c: "fst (do_GET pyfloat ''/data.json'' page items w)
             = Inr (Response 200 (Some ''application/json'')
                     (Lines (sort_by_popularity (apply_filters all_products c price_range s b))))"
    using assms(1) a by (simp add: do_GET_def)
  show ?thesis
    using a b c by (simp add: non_increasing_rev_sort_key sort_by_popularity_def)
qed

text \<open>
  C1 amended, at the fixture with color black and \<^verbatim>\<open>sort_by\<close> popularity.
\<close>

theorem popularity_sort_dispatch_witness:
  "current_filters_json (sample_world [(''color'', JStr ''black''), (''sort_by'', JStr ''popularity'')])
     = Some (Stored (JObj [(''color'', JStr ''black''), (''sort_by'', JStr ''popularity'')]))
   \<and> py_get [(''color'', JStr ''black''), (''sort_by'', JStr ''popularity'')] ''sort_by''
       = JStr ''popularity''
   \<and> load_products (data_json
         (sample_world [(''color'', JStr ''black''), (''sort_by'', JStr ''popularity'')]))
       = Inr sample_products
   \<and> criteria_data_json digits_float [(''color'', JStr ''black''), (''sort_by'', JStr ''popularity'')]
       = Inr (JStr ''black'', None, JNull, JNull)
   \<and> filtered_api_products digits_float
         (sample_world [(''color'', JStr ''black''), (''sort_by'', JStr ''popularity'')])
       = Inr (sort_by_popularity (apply_filters sample_products (JStr ''black'') None JNull JNull))
   \<and> non_increasing (map popularity_score
         (sort_by_popularity (apply_filters sample_products (JStr ''black'') None JNull JNull)))"
proof -
  let ?f = "[(''color'', JStr ''black''), (''sort_by'', JStr ''popularity'')]"
  have h1: "current_filters_json (sample_world ?f) = Some (Stored (JObj ?f))"
    by (simp add: sample_world_def)
  have h2: "py_get ?f ''sort_by'' = JStr ''popularity''"
    by (simp add: py_get_def)
  have h3: "load_products (data_json (sample_world ?f)) = Inr sample_products"
    by (simp add: sample_world_def load_products_def)
  have h4: "criteria_data_json digits_float ?f = Inr (JStr ''black'', None, JNull, JNull)"
    by (simp add: criteria_data_json_def py_get_def)
  from popularity_sort_dispatch [OF h1 h2 h3 h4] h1 h2 h3 h4 show ?thesis
    by blast
qed

lemma scenario_black_by_popularity:
  "map product_id (sort_by_popularity (apply_filters sample_products (JStr ''black'') None JNull JNull))
     = [2, 3]"
  by (simp add: sort_by_popularity_def apply_filters_def filter_by_color_def sample_products_def)

section \<open>Criteria that are empty or null\<close>

lemma map_of_filter_key:
  "map_of (filter (\<lambda>kv. fst kv \<noteq> key) kvs) k = (if k = key then None else map_of kvs k)"
  by (induction kvs) auto

lemma py_get_without_key:
  "py_get (without_key key kvs) k = (if k = key then JNull else py_get kvs k)"
  by (simp add: py_get_def without_key_def rev_filter map_of_filter_key)

lemma criteria_without_key:
  assumes "(key \<in> {''color'', ''brand'', ''price_range''}
              \<and> py_get filters key \<in> {JStr '''', JNull})
           \<or> (key = ''on_sale'' \<and> py_get filters key = JNull)"
  shows "criteria_data_json pyfloat (without_key key filters)
           = criteria_data_json pyfloat filters"
  using assms
  by (elim disjE conjE insertE emptyE)
     (simp_all add: criteria_data_json_def py_get_without_key)

lemma sort_by_without_key:
  assumes "key \<in> {''color'', ''brand'', ''price_range'', ''on_sale''}"
  shows "py_get (without_key key filters) ''sort_by'' = py_get filters ''sort_by''"
  using assms by (auto simp: py_get_without_key)

text \<open>
  Whatever is stored under on_sale reaches \<open>apply_filters\<close> as it is; the other three
  criteria do not depend on it.
\<close>

lemma criteria_on_sale:
  "criteria_data_json pyfloat filters
     = (case criteria_data_json pyfloat (without_key ''on_sale'' filters) of
          Inl e \<Rightarrow> Inl e
        | Inr (c, price_range, s, b) \<Rightarrow> Inr (c, price_range, py_get filters ''on_sale'', b))"
  by (simp add: criteria_data_json_def py_get_without_key
        split: json.splits list.splits option.splits)

lemma on_sale_handed_over:
  "criteria_data_json pyfloat filters = Inr (c, price_range, s, b) \<Longrightarrow>
     s = py_get filters ''on_sale''"
  by (auto simp: criteria_data_json_def Let_def
        split: if_splits json.splits list.splits option.splits)

text \<open>The filter engine takes an empty string for a criterion that is not provided.\<close>

lemma apply_filters_empty_on_sale:
  "apply_filters products c price_range (JStr '''') b
     = apply_filters products c price_range JNull b"
  by (simp add: apply_filters_def)

lemma filtered_without_empty_on_sale:
  assumes "py_get filters ''on_sale'' = JStr ''''"
  shows "filtered_data_json pyfloat (Stored (JObj filters)) w
           = filtered_data_json pyfloat (Stored (JObj (without_key ''on_sale'' filters))) w"
proof -
  have s: "py_get (without_key ''on_sale'' filters) ''sort_by'' = py_get filters ''sort_by''"
    by (simp add: sort_by_without_key)
  have n: "s = JNull"
    if "criteria_data_json pyfloat (without_key ''on_sale'' filters)
          = Inr (c, price_range, s, b)" for c price_range s b
    using on_sale_handed_over [OF that] by (simp add: py_get_without_key)
  show ?thesis
    unfolding filtered_data_json_def
    by (subst criteria_on_sale)
       (auto simp: s assms apply_filters_empty_on_sale dest: n split: sum.splits)
qed

lemma filtered_data_json_store:
  "filtered_data_json pyfloat f (w\<lparr>current_filters_json := x\<rparr>)
     = filtered_data_json pyfloat f w"
  by (simp add: filtered_data_json_def split: filters_file.splits)

text \<open>
  C2, as stated, fails for on_sale: the handler tests it with \<^verbatim>\<open>is not None\<close>, so an
  empty string is handed to \<open>apply_filters\<close> as the criterion, where a missing key gives
  \<^verbatim>\<open>None\<close>: the handler does not treat it as not provided.
\<close>

theorem empty_on_sale_counterexample:
  "criteria_data_json digits_float [(''on_sale'', JStr '''')]
     = Inr (JNull, None, JStr '''', JNull)
   \<and> criteria_data_json digits_float (without_key ''on_sale'' [(''on_sale'', JStr '''')])
     = Inr (JNull, None, JNull, JNull)
   \<and> criteria_api_products digits_float [(''on_sale'', JStr '''')]
     = Inr (JNull, None, JStr '''', JNull)
   \<and> criteria_api_products digits_float (without_key ''on_sale'' [(''on_sale'', JStr '''')])
     = Inr (JNull, None, JNull, JNull)"
  by (simp add: criteria_data_json_def criteria_api_products_def py_get_def without_key_def)

text \<open>
  C2, amended: for each of color, brand, price_range and on_sale, a stored value that is
  the empty string or null leaves the records either endpoint computes those of the same
  store without that key. The handler hands the criterion on as \<^verbatim>\<open>None\<close>, as for a
  missing key, in every case but one: an on_sale that is the empty string it hands on as
  it is, and it is \<open>apply_filters\<close> that takes it for not provided.
\<close>

theorem empty_criterion_not_provided:
  assumes "key \<in> {''color'', ''brand'', ''price_range'', ''on_sale''}"
    and "py_get filters key \<in> {JStr '''', JNull}"
  shows "filtered_data_json pyfloat (Stored (JObj filters)) w
           = filtered_data_json pyfloat (Stored (JObj (without_key key filters))) w
         \<and> filtered_api_products pyfloat
               (w\<lparr>current_filters_json := Some (Stored (JObj filters))\<rparr>)
           = filtered_api_products pyfloat
               (w\<lparr>current_filters_json := Some (Stored (JObj (without_key key filters)))\<rparr>)
         \<and> ((key = ''on_sale'' \<and> py_get filters key = JStr '''')
              \<or> (criteria_data_json pyfloat filters
                    = criteria_data_json pyfloat (without_key key filters)
                  \<and> criteria_api_products pyfloat filters
                    = criteria_api_products pyfloat (without_key key filters)))"
proof (cases "key = ''on_sale'' \<and> py_get filters key = JStr ''''")
  case True
  then have k: "key = ''on_sale''" and v: "py_get filters ''on_sale'' = JStr ''''"
    by blast+
  have d: "filtered_data_json pyfloat (Stored (JObj filters)) w
           = filtered_data_json pyfloat (Stored (JObj (without_key key filters))) w" for w
    unfolding k by (rule filtered_without_empty_on_sale [OF v])
  have a: "filtered_api_products pyfloat
               (w\<lparr>current_filters_json := Some (Stored (JObj filters))\<rparr>)
           = filtered_api_products pyfloat
               (w\<lparr>current_filters_json := Some (Stored (JObj (without_key key filters)))\<rparr>)"
    by (simp add: filtered_same filtered_data_json_store d)
  from d [of w] a True show ?thesis
    by blast
next
  case False
  with assms have h: "(key \<in> {''color'', ''brand'', ''price_range''}
              \<and> py_get filters key \<in> {JStr '''', JNull})
           \<or> (key = ''on_sale'' \<and> py_get filters key = JNull)"
    by auto
  note c = criteria_without_key [OF h, of pyfloat]
  note s = sort_by_without_key [OF assms(1), of filters]
  have d: "filtered_data_json pyfloat (Stored (JObj filters)) w
           = filtered_data_json pyfloat (Stored (JObj (without_key key filters))) w"
    by (simp add: filtered_data_json_def c s split: sum.splits)
  have a: "filtered_api_products pyfloat
               (w\<lparr>current_filters_json := Some (Stored (JObj filters))\<rparr>)
           = filtered_api_products pyfloat
               (w\<lparr>current_filters_json := Some (Stored (JObj (without_key key filters)))\<rparr>)"
    by (simp add: filtered_api_products_def criteria_same c s split: sum.splits)
  show ?thesis
    using c d a by (simp add: criteria_same)
qed

text \<open>
  C2 amended, at an empty on_sale next to the brand gucci: the one case the filter
  engine settles.
\<close>

theorem empty_criterion_not_provided_witness:
  "''on_sale'' \<in> {''color'', ''brand'', ''price_range'', ''on_sale''}
   \<and> py_get [(''on_sale'', JStr ''''), (''brand'', JStr ''gucci'')] ''on_sale''
        \<in> {JStr '''', JNull}
   \<and> filtered_api_products digits_float
        (sample_world [(''on_sale'', JStr ''''), (''brand'', JStr ''gucci'')])
     = filtered_api_products digits_float
        (sample_world (without_key ''on_sale''
           [(''on_sale'', JStr ''''), (''brand'', JStr ''gucci'')]))"
proof -
  let ?f = "[(''on_sale'', JStr ''''), (''brand'', JStr ''gucci'')]"
  have h1: "''on_sale'' \<in> {''color'', ''brand'', ''price_range'', ''on_sale''}"
    by simp
  have h2: "py_get ?f ''on_sale'' \<in> {JStr '''', JNull}"
    by (simp add: py_get_def)
  from empty_criterion_not_provided [OF h1 h2, of digits_float "sample_world []"] h1 h2
  show ?thesis
    by (simp add: sample_world_def)
qed

lemma scenario_empty_color:
  "map_sum id (map product_id)
     (filtered_api_products digits_float
        (sample_world [(''color'', JStr ''''), (''brand'', JStr ''gucci'')]))
     = Inr [1, 2, 4]"
  by (simp add: filtered_api_products_def sample_world_def load_products_def
        criteria_api_products_def py_get_def sorting_api_products_def
        apply_filters_def filter_by_brand_def sample_products_def)

section \<open>The mutation endpoints and the catalog\<close>

text \<open>
  C8. Clearing the filters answers 200 with the body \<open>{"status": "success"}\<close> and leaves
  the store absent in every state, the one where it is already absent included.
\<close>

theorem clear_filters_idempotent:
  "do_POST ''/api/clear-filters'' posted w
     = (Inr (Response 200 (Some ''application/json'')
               (Json (JObj [(''status'', JStr ''success'')]))),
        w\<lparr>current_filters_json := None\<rparr>)"
  by (simp add: do_POST_def)

lemma do_GET_world: "snd (do_GET pyfloat path page items w) = w"
  by (simp add: do_GET_def split: sum.splits option.splits)

text \<open>
  C9. No request changes the catalog source: after any GET or POST, answered or
  raised, \<^verbatim>\<open>data.json\<close> is what it was.
\<close>

theorem catalog_untouched:
  "data_json (snd (handle pyfloat req w)) = data_json w"
  by (cases req) (simp_all add: handle_def do_GET_world do_POST_def split: option.splits)

end
